theory Spec2Isabelle
  imports Main "HOL-Library.AList" "HOL-Library.DAList"
begin

section \<open>Python values shared by the modules\<close>

text \<open>
  An exception is a value: its class and the text that \<^verbatim>\<open>str(e)\<close> gives. Only
  subclasses of \<^verbatim>\<open>Exception\<close> are modelled; these are the ones a handler
  \<^verbatim>\<open>except Exception\<close> catches. A function that may raise returns
  \<open>exn + 'a\<close>, with \<open>Inl\<close> for the raised exception.
\<close>

datatype exn_class = RuntimeError | TimeoutError | ValueError | KeyError | OtherError

datatype exn = Exn exn_class string

fun class_of :: "exn \<Rightarrow> exn_class" where
  "class_of (Exn c m) = c"

fun str_exn :: "exn \<Rightarrow> string" where
  "str_exn (Exn c m) = m"

text \<open>
  A Python \<^verbatim>\<open>dict\<close> is an association list with distinct keys, in insertion order:
  the type \<open>('k, 'v) alist\<close>. \<^verbatim>\<open>len(d)\<close>, \<^verbatim>\<open>d.keys()\<close>, \<^verbatim>\<open>d.values()\<close>,
  \<^verbatim>\<open>k in d\<close>, \<^verbatim>\<open>d[k]\<close> (raising \<^verbatim>\<open>KeyError\<close> for a missing key) and
  \<^verbatim>\<open>d[k] = v\<close> are:
\<close>

definition len_dict :: "('k, 'v) alist \<Rightarrow> nat" where
  "len_dict d = length (DAList.impl_of d)"

definition keys_dict :: "('k, 'v) alist \<Rightarrow> 'k list" where
  "keys_dict d = map fst (DAList.impl_of d)"

definition values_dict :: "('k, 'v) alist \<Rightarrow> 'v list" where
  "values_dict d = map snd (DAList.impl_of d)"

definition contains :: "('k, 'v) alist \<Rightarrow> 'k \<Rightarrow> bool" where
  "contains d k = (DAList.lookup d k \<noteq> None)"

definition getitem :: "(string, 'v) alist \<Rightarrow> string \<Rightarrow> exn + 'v" where
  "getitem d k = (case DAList.lookup d k of
      None \<Rightarrow> Inl (Exn KeyError k)
    | Some v \<Rightarrow> Inr v)"

definition setitem :: "('k, 'v) alist \<Rightarrow> 'k \<Rightarrow> 'v \<Rightarrow> ('k, 'v) alist" where
  "setitem d k v = DAList.update k v d"

section \<open>tc\_translate/utils.py: validate\_terminology\_file\<close>

text \<open>
  \<^verbatim>\<open>pd.read_csv(filepath)\<close> belongs to pandas and to the file system: it is a
  parameter of the model, a function from the path to either the exception it raises or
  the data frame it parses. A data frame is its columns in order, each with its cell
  values; pandas makes the column names of one frame distinct. The type \<open>'a\<close> of the
  cells stands for the parsed values under the equality \<^verbatim>\<open>Series.duplicated\<close>
  compares them by: equal values are duplicates, and a string equals another only when
  the same characters, in the same case, make it up.
\<close>

type_synonym 'a dataframe = "(string, 'a list) alist"

definition columns :: "'a dataframe \<Rightarrow> string list" where
  "columns df = keys_dict df"

definition required_columns :: "string list" where
  "required_columns = [''id'', ''term'', ''translation'']"

text \<open>
  \<^verbatim>\<open>Series.duplicated()\<close> marks every value that has occurred earlier in the
  series (the first occurrence stays unmarked); \<^verbatim>\<open>.any()\<close> says whether some mark
  is set.
\<close>

primrec duplicated_from :: "'a list \<Rightarrow> 'a list \<Rightarrow> bool list" where
  "duplicated_from seen [] = []"
| "duplicated_from seen (x # xs) = (x \<in> set seen) # duplicated_from (x # seen) xs"

definition duplicated :: "'a list \<Rightarrow> bool list" where
  "duplicated xs = duplicated_from [] xs"

definition any_series :: "bool list \<Rightarrow> bool" where
  "any_series bs = list_ex (\<lambda>b. b) bs"

text \<open>
  The body of the \<^verbatim>\<open>try\<close> block, in the order of the source: read, check the
  columns, check the terms, check the ids.
\<close>

definition validate_try_body :: "(string \<Rightarrow> exn + 'a dataframe) \<Rightarrow> string \<Rightarrow> exn + bool \<times> string" where
  "validate_try_body read_csv filepath =
     (case read_csv filepath of
        Inl e \<Rightarrow> Inl e
      | Inr df \<Rightarrow>
          if \<not> list_all (\<lambda>col. col \<in> set (columns df)) required_columns
          then Inr (False, ''Missing required columns. Required: ['id', 'term', 'translation']'')
          else (case getitem df ''term'' of
             Inl e \<Rightarrow> Inl e
           | Inr terms \<Rightarrow>
               if any_series (duplicated terms)
               then Inr (False, ''Duplicate terms found'')
               else (case getitem df ''id'' of
                  Inl e \<Rightarrow> Inl e
                | Inr ids \<Rightarrow>
                    if any_series (duplicated ids)
                    then Inr (False, ''Duplicate IDs found'')
                    else Inr (True, ''File is valid''))))"

text \<open>The handler \<^verbatim>\<open>except Exception as e\<close> turns every exception into a result.\<close>

definition validate_terminology_file :: "(string \<Rightarrow> exn + 'a dataframe) \<Rightarrow> string \<Rightarrow> exn + bool \<times> string" where
  "validate_terminology_file read_csv filepath =
     (case validate_try_body read_csv filepath of
        Inl e \<Rightarrow> Inr (False, ''Error reading file: '' @ str_exn e)
      | Inr r \<Rightarrow> Inr r)"

text \<open>
  Equality of two strings up to the case of the letters A to Z, as the specification
  words uniqueness of terms. The source has no such comparison; this definition only
  states the specification's reading.
\<close>

definition lower_char :: "char \<Rightarrow> char" where
  "lower_char c =
     (case map_of (zip ''ABCDEFGHIJKLMNOPQRSTUVWXYZ'' ''abcdefghijklmnopqrstuvwxyz'') c of
        None \<Rightarrow> c
      | Some l \<Rightarrow> l)"

definition equal_ignoring_case :: "string \<Rightarrow> string \<Rightarrow> bool" where
  "equal_ignoring_case a b = (map lower_char a = map lower_char b)"

text \<open>Frames used as concrete inputs.\<close>

definition frame_of :: "string list \<Rightarrow> string list \<Rightarrow> string list \<Rightarrow> string dataframe" where
  "frame_of ids terms translations =
     setitem (setitem (setitem DAList.empty ''id'' ids) ''term'' terms) ''translation'' translations"

text \<open>
  A \<^verbatim>\<open>read_csv\<close> over four paths: a valid file, a file in which two rows share an
  id, a file without the column \<^verbatim>\<open>translation\<close>, and a path that cannot be read.
\<close>

definition disk :: "string \<Rightarrow> exn + string dataframe" where
  "disk filepath =
     (if filepath = ''terms.csv''
      then Inr (frame_of [''1'', ''2''] [''sun'', ''moon''] [''awia'', ''bosome''])
      else if filepath = ''ids.csv''
      then Inr (frame_of [''5'', ''5''] [''sun'', ''moon''] [''awia'', ''bosome''])
      else if filepath = ''short.csv''
      then Inr (setitem (setitem DAList.empty ''id'' [''1'', ''2'']) ''term'' [''sun'', ''moon''])
      else Inl (Exn OtherError ''No such file''))"

text \<open>A \<^verbatim>\<open>read_csv\<close> that parses every path to the given frame.\<close>

definition reads_as :: "'a dataframe \<Rightarrow> string \<Rightarrow> exn + 'a dataframe" where
  "reads_as df filepath = Inr df"

section \<open>tc\_translate/utils.py: list\_available\_options and export\_terminology\<close>

text \<open>
  The class \<^verbatim>\<open>TerminologyManager\<close> of \<^verbatim>\<open>tc_translate\<close> and its \<^verbatim>\<open>Term\<close>
  objects live in the module \<^verbatim>\<open>terminology_manager\<close>, which \<^verbatim>\<open>utils.py\<close> only
  imports. The constructor is a parameter of the
  model (\<open>new_manager\<close>, from the optional directory to the manager), and a manager
  is the record of what its four methods return. A \<^verbatim>\<open>Term\<close> carries the
  attributes \<^verbatim>\<open>id\<close>, \<^verbatim>\<open>term\<close> and \<^verbatim>\<open>translation\<close>.
\<close>

record term_obj =
  term_id :: string
  term_term :: string
  term_translation :: string

record tc_terminology_manager =
  get_domains :: "string list"
  get_languages :: "string list"
  get_available_domains_languages :: "(string \<times> string) list"
  get_terms_for_domain_lang :: "string \<Rightarrow> string \<Rightarrow> (string, term_obj) alist"

text \<open>The dictionary that \<^verbatim>\<open>list_available_options\<close> returns, one field per key.\<close>

record available_options =
  domains :: "string list"
  languages :: "string list"
  domain_language_pairs :: "(string \<times> string) list"
  domains_with_languages :: "(string, string list) alist"

text \<open>
  One round of the loop \<^verbatim>\<open>for domain, lang in domain_lang_pairs\<close>: a domain not
  yet in the dictionary gets the empty list, then the language is appended to the
  domain's list.
\<close>

definition group_step ::
  "(string, string list) alist \<Rightarrow> string \<times> string \<Rightarrow> exn + (string, string list) alist" where
  "group_step domains_dict p =
     (case p of (domain, lang) \<Rightarrow>
        (let d1 = (if \<not> contains domains_dict domain
                   then setitem domains_dict domain []
                   else domains_dict)
         in case getitem d1 domain of
              Inl e \<Rightarrow> Inl e
            | Inr langs \<Rightarrow> Inr (setitem d1 domain (langs @ [lang]))))"

fun group_loop ::
  "(string, string list) alist \<Rightarrow> (string \<times> string) list \<Rightarrow> exn + (string, string list) alist" where
  "group_loop domains_dict [] = Inr domains_dict"
| "group_loop domains_dict (p # ps) =
     (case group_step domains_dict p of
        Inl e \<Rightarrow> Inl e
      | Inr d' \<Rightarrow> group_loop d' ps)"

text \<open>The languages listed under a domain, none for a domain that is not a key.\<close>

definition langs_of :: "(string, string list) alist \<Rightarrow> string \<Rightarrow> string list" where
  "langs_of d k = (case DAList.lookup d k of None \<Rightarrow> [] | Some ls \<Rightarrow> ls)"

definition list_available_options ::
  "(string option \<Rightarrow> tc_terminology_manager) \<Rightarrow> string option \<Rightarrow> exn + available_options" where
  "list_available_options new_manager terminologies_dir =
     (let manager = new_manager terminologies_dir;
          doms = get_domains manager;
          langs = get_languages manager;
          domain_lang_pairs = get_available_domains_languages manager
      in case group_loop DAList.empty domain_lang_pairs of
           Inl e \<Rightarrow> Inl e
         | Inr domains_dict \<Rightarrow>
             Inr \<lparr>domains = doms, languages = langs,
                  domain_language_pairs = domain_lang_pairs,
                  domains_with_languages = domains_dict\<rparr>)"

text \<open>
  \<^verbatim>\<open>export_terminology\<close> returns a string (JSON or CSV text) or the list of
  dictionaries itself. \<^verbatim>\<open>json.dumps\<close> and the \<^verbatim>\<open>csv.DictWriter\<close> belong to
  Python's library: the two renderings are parameters of the model, total on
  dictionaries of strings.
\<close>

datatype export_value = Str string | Terms_list "(string, string) alist list"

definition term_dict :: "term_obj \<Rightarrow> (string, string) alist" where
  "term_dict t =
     setitem (setitem (setitem DAList.empty ''id'' (term_id t)) ''term'' (term_term t))
       ''translation'' (term_translation t)"

definition export_terminology ::
  "(string option \<Rightarrow> tc_terminology_manager) \<Rightarrow> ((string, string) alist list \<Rightarrow> string) \<Rightarrow>
   ((string, string) alist list \<Rightarrow> string) \<Rightarrow>
   string \<Rightarrow> string \<Rightarrow> string \<Rightarrow> string option \<Rightarrow> exn + export_value" where
  "export_terminology new_manager json_dumps csv_getvalue domain language output_format terminologies_dir =
     (let manager = new_manager terminologies_dir;
          terms_dict = get_terms_for_domain_lang manager domain language
      in if len_dict terms_dict = 0
         then Inl (Exn ValueError (''No terminology found for '' @ domain @ ''/'' @ language))
         else (let terms_list = map term_dict (values_dict terms_dict)
               in if output_format = ''json'' then Inr (Str (json_dumps terms_list))
                  else if output_format = ''csv'' then Inr (Str (csv_getvalue terms_list))
                  else Inr (Terms_list terms_list)))"

text \<open>A manager with one populated pair, used as a concrete input.\<close>

definition politics_el :: "(string, term_obj) alist" where
  "politics_el =
     setitem (setitem DAList.empty ''parliament''
        \<lparr>term_id = ''1'', term_term = ''Parliament'', term_translation = ''Vouli''\<rparr>)
       ''minister'' \<lparr>term_id = ''2'', term_term = ''Minister'', term_translation = ''Ypourgos''\<rparr>"

definition manager0 :: "string option \<Rightarrow> tc_terminology_manager" where
  "manager0 dir =
     \<lparr>get_domains = [''politics'', ''law''],
      get_languages = [''el'', ''ak''],
      get_available_domains_languages = [(''politics'', ''el''), (''law'', ''ak''), (''politics'', ''ak'')],
      get_terms_for_domain_lang =
        (\<lambda>d l. if d = ''politics'' \<and> l = ''el'' then politics_el else DAList.empty)\<rparr>"

section \<open>nkrane/translator.py\<close>

text \<open>
  The \<^verbatim>\<open>TerminologyManager\<close> of \<^verbatim>\<open>nkrane\<close> lives in the module
  \<^verbatim>\<open>terminology_manager\<close>, which \<^verbatim>\<open>translator.py\<close> only imports: its two
  methods are fields of a record. \<^verbatim>\<open>preprocess_text\<close> returns the text with
  placeholders, the dictionary of replacements and the original cases;
  \<^verbatim>\<open>postprocess_text\<close> puts the translations back. The types of the dictionary's
  values and of the cases are left open.
\<close>

record ('v, 'c) terminology_manager =
  preprocess_text :: "string \<Rightarrow> string \<times> (string, 'v) alist \<times> 'c"
  postprocess_text :: "string \<Rightarrow> (string, 'v) alist \<Rightarrow> 'c \<Rightarrow> string"

record ('v, 'c) nkrane_translator =
  target_lang :: string
  src_lang :: string
  use_builtin :: bool
  terminology_manager :: "('v, 'c) terminology_manager"
  src_lang_google :: string
  target_lang_google :: string

text \<open>The dictionary that a translation returns, one field per key (\<open>text_final\<close> is the key \<^verbatim>\<open>'text'\<close>).\<close>

record translation_result =
  text_final :: string
  src :: string
  dest :: string
  original :: string
  preprocessed :: string
  google_translation :: string
  replacements_count :: nat
  src_google :: string
  dest_google :: string
  replaced_terms :: "string list"

text \<open>
  The external translator (\<^verbatim>\<open>GoogleTranslator().translate\<close>) is a parameter: the
  outcome of its \<open>n\<close>-th call on a text, a source and a destination language, either
  the exception it raises or the text of its result. The number of calls made so far is
  the state that every function below takes and returns.
\<close>

type_synonym google = "nat \<Rightarrow> string \<Rightarrow> string \<Rightarrow> string \<Rightarrow> exn + string"

definition translate_async ::
  "google \<Rightarrow> ('v, 'c) nkrane_translator \<Rightarrow> string \<Rightarrow> nat \<Rightarrow> (exn + translation_result) \<times> nat" where
  "translate_async google self text_in calls =
     (case preprocess_text (terminology_manager self) text_in of
        (preprocessed_text, replacements, original_cases) \<Rightarrow>
          (case google calls preprocessed_text (src_lang_google self) (target_lang_google self) of
             Inl e \<Rightarrow> (Inl e, Suc calls)
           | Inr google_text \<Rightarrow>
               (let final_text = postprocess_text (terminology_manager self)
                                   google_text replacements original_cases
                in (Inr \<lparr>text_final = final_text,
                         src = src_lang self,
                         dest = target_lang self,
                         original = text_in,
                         preprocessed = preprocessed_text,
                         google_translation = google_text,
                         replacements_count = len_dict replacements,
                         src_google = src_lang_google self,
                         dest_google = target_lang_google self,
                         replaced_terms = keys_dict replacements\<rparr>,
                    Suc calls))))"

text \<open>
  What \<^verbatim>\<open>asyncio.get_event_loop()\<close> finds: no current loop (it raises
  \<^verbatim>\<open>RuntimeError\<close>), a loop that is not running, or a running loop. With a
  running loop the coroutine is handed to that loop and \<^verbatim>\<open>future.result\<close> waits
  for it: either the outcome of the coroutine arrives within the timeout, or
  \<^verbatim>\<open>future.result\<close> raises \<^verbatim>\<open>TimeoutError\<close>. In the second case the
  coroutine has made some of its calls of the external translator when the exception is
  raised, none of them when the caller's own thread runs the loop; that number is part of
  the case, and never more than the calls the coroutine makes in all.
\<close>

datatype future_wait = Result_in_time | Timed_out nat

datatype event_loop = No_current_loop | Loop_not_running | Loop_running future_wait

definition submit_and_wait :: "future_wait \<Rightarrow> nat \<Rightarrow> (exn + 'a) \<times> nat \<Rightarrow> (exn + 'a) \<times> nat" where
  "submit_and_wait wait calls run =
     (case wait of
        Result_in_time \<Rightarrow> run
      | Timed_out made \<Rightarrow> (Inl (Exn TimeoutError []), min (calls + made) (snd run)))"

text \<open>
  \<^verbatim>\<open>translate\<close>: the \<^verbatim>\<open>try\<close> block first, then the handlers.
  \<^verbatim>\<open>except RuntimeError\<close> runs the coroutine again with \<^verbatim>\<open>asyncio.run\<close>;
  \<^verbatim>\<open>except TimeoutError\<close> logs and raises again; any other exception passes.
\<close>

definition translate ::
  "event_loop \<Rightarrow> google \<Rightarrow> ('v, 'c) nkrane_translator \<Rightarrow> string \<Rightarrow> nat \<Rightarrow> (exn + translation_result) \<times> nat" where
  "translate loop google self text_in calls =
     (case (case loop of
              No_current_loop \<Rightarrow> (Inl (Exn RuntimeError ''There is no current event loop''), calls)
            | Loop_running wait \<Rightarrow> submit_and_wait wait calls (translate_async google self text_in calls)
            | Loop_not_running \<Rightarrow> translate_async google self text_in calls) of
        (Inr result, calls1) \<Rightarrow> (Inr result, calls1)
      | (Inl e, calls1) \<Rightarrow>
          if class_of e = RuntimeError then translate_async google self text_in calls1
          else (Inl e, calls1))"

text \<open>
  \<^verbatim>\<open>batch_translate\<close>: the loop over the texts appends each result to
  \<^verbatim>\<open>results\<close>; an exception of \<^verbatim>\<open>_translate_async\<close> is not handled and leaves
  the loop. The pause \<^verbatim>\<open>asyncio.sleep(0.1)\<close> changes no value.
\<close>

fun batch_loop ::
  "google \<Rightarrow> ('v, 'c) nkrane_translator \<Rightarrow> string list \<Rightarrow> translation_result list \<Rightarrow> nat
     \<Rightarrow> (exn + translation_result list) \<times> nat" where
  "batch_loop google self [] results calls = (Inr results, calls)"
| "batch_loop google self (text_in # texts) results calls =
     (case translate_async google self text_in calls of
        (Inl e, calls1) \<Rightarrow> (Inl e, calls1)
      | (Inr result, calls1) \<Rightarrow> batch_loop google self texts (results @ [result]) calls1)"

definition batch_translate ::
  "google \<Rightarrow> ('v, 'c) nkrane_translator \<Rightarrow> string list \<Rightarrow> nat \<Rightarrow> (exn + translation_result list) \<times> nat" where
  "batch_translate google self texts calls = batch_loop google self texts [] calls"

definition batch_translate_sync ::
  "event_loop \<Rightarrow> google \<Rightarrow> ('v, 'c) nkrane_translator \<Rightarrow> string list \<Rightarrow> nat
     \<Rightarrow> (exn + translation_result list) \<times> nat" where
  "batch_translate_sync loop google self texts calls =
     (case (case loop of
              No_current_loop \<Rightarrow> (Inl (Exn RuntimeError ''There is no current event loop''), calls)
            | Loop_running wait \<Rightarrow> submit_and_wait wait calls (batch_translate google self texts calls)
            | Loop_not_running \<Rightarrow> batch_translate google self texts calls) of
        (Inr results, calls1) \<Rightarrow> (Inr results, calls1)
      | (Inl e, calls1) \<Rightarrow>
          if class_of e = RuntimeError then batch_translate google self texts calls1
          else (Inl e, calls1))"

text \<open>
  Concrete inputs: a translator to Akan whose terminology manager protects the word
  Parliament, and three external translators: one that answers every call, one whose
  first call raises a \<^verbatim>\<open>RuntimeError\<close>, and one that fails on one text.
\<close>

definition akan_manager :: "(string, unit) terminology_manager" where
  "akan_manager =
     \<lparr>preprocess_text = (\<lambda>t. if t = ''The Parliament meets today.''
          then (''The <1> meets today.'', setitem DAList.empty ''Parliament'' ''<1>'', ())
          else (t, DAList.empty, ())),
      postprocess_text = (\<lambda>t replacements cases.
          if contains replacements ''Parliament'' then ''Mmarahyebadwa - '' @ t else t)\<rparr>"

definition akan_translator :: "(string, unit) nkrane_translator" where
  "akan_translator =
     \<lparr>target_lang = ''ak'', src_lang = ''en'', use_builtin = True,
      terminology_manager = akan_manager,
      src_lang_google = ''en'', target_lang_google = ''ak''\<rparr>"

definition google_ok :: google where
  "google_ok n t s d = Inr (''['' @ d @ ''] '' @ t)"

definition google_first_call_fails :: google where
  "google_first_call_fails n t s d =
     (if n = 0 then Inl (Exn RuntimeError ''Event loop is closed'') else Inr (''['' @ d @ ''] '' @ t))"

definition google_always_fails :: google where
  "google_always_fails n t s d =
     (if n = 0 then Inl (Exn RuntimeError ''Event loop is closed'')
      else Inl (Exn OtherError ''Service unavailable''))"

definition google_fails_on :: "string \<Rightarrow> google" where
  "google_fails_on bad n t s d =
     (if t = bad then Inl (Exn OtherError ''Service unavailable'') else Inr (''['' @ d @ ''] '' @ t))"

section \<open>Properties of validate\_terminology\_file\<close>

lemma any_duplicated_from:
  "any_series (duplicated_from seen xs) \<longleftrightarrow> (\<exists>x \<in> set xs. x \<in> set seen) \<or> \<not> distinct xs"
  by (induction xs arbitrary: seen) (auto simp: any_series_def)

lemma any_duplicated: "any_series (duplicated xs) \<longleftrightarrow> \<not> distinct xs"
  by (simp add: duplicated_def any_duplicated_from)

lemma in_columns: "c \<in> set (columns df) \<longleftrightarrow> DAList.lookup df c \<noteq> None"
  by (simp add: columns_def keys_dict_def lookup.rep_eq map_of_eq_None_iff)

lemma all_required:
  "list_all (\<lambda>col. col \<in> set (columns df)) required_columns \<longleftrightarrow>
     DAList.lookup df ''id'' \<noteq> None \<and> DAList.lookup df ''term'' \<noteq> None
       \<and> DAList.lookup df ''translation'' \<noteq> None"
  by (simp add: required_columns_def in_columns)

lemma lookup_frame_of:
  "DAList.lookup (frame_of ids terms translations) ''id'' = Some ids"
  "DAList.lookup (frame_of ids terms translations) ''term'' = Some terms"
  "DAList.lookup (frame_of ids terms translations) ''translation'' = Some translations"
  by (simp_all add: frame_of_def setitem_def)

lemma validate_result:
  "validate_terminology_file read_csv fp =
     (case read_csv fp of
        Inl e \<Rightarrow> Inr (False, ''Error reading file: '' @ str_exn e)
      | Inr df \<Rightarrow>
          (case (DAList.lookup df ''id'', DAList.lookup df ''term'', DAList.lookup df ''translation'') of
             (Some ids, Some terms, Some trs) \<Rightarrow>
               if \<not> distinct terms then Inr (False, ''Duplicate terms found'')
               else if \<not> distinct ids then Inr (False, ''Duplicate IDs found'')
               else Inr (True, ''File is valid'')
           | _ \<Rightarrow> Inr (False, ''Missing required columns. Required: ['id', 'term', 'translation']'')))"
  by (auto simp: validate_terminology_file_def validate_try_body_def all_required getitem_def
      any_duplicated split: sum.splits option.splits)

lemma repeated_not_distinct:
  assumes "i < j" and "j < length xs" and "xs ! i = xs ! j"
  shows "\<not> distinct xs"
  using assms nth_eq_iff_index_eq [of xs i j] by auto

text \<open>
  Claim C3, as the code has it: a file with the three required columns whose term column
  holds the same value twice (the same characters in the same case, at two different
  rows) is reported invalid, with the reason \<^verbatim>\<open>Duplicate terms found\<close>.
\<close>

theorem validate_rejects_equal_terms:
  assumes "read_csv fp = Inr df"
    and "list_all (\<lambda>col. col \<in> set (columns df)) required_columns"
    and "DAList.lookup df ''term'' = Some terms"
    and "i < j" and "j < length terms" and "terms ! i = terms ! j"
  shows "validate_terminology_file read_csv fp = Inr (False, ''Duplicate terms found'')"
proof -
  have "\<not> distinct terms"
    using assms(4-6) by (rule repeated_not_distinct)
  then show ?thesis
    using assms(1-3) by (auto simp: validate_result all_required split: option.splits)
qed

theorem validate_rejects_equal_terms_witness:
  "validate_terminology_file
     (\<lambda>p. Inr (frame_of [''1'', ''2'', ''3''] [''sun'', ''moon'', ''sun''] [''awia'', ''bosome'', ''owia'']))
     ''terms.csv'' = Inr (False, ''Duplicate terms found'')"
  using validate_rejects_equal_terms
    [of "\<lambda>p. Inr (frame_of [''1'', ''2'', ''3''] [''sun'', ''moon'', ''sun''] [''awia'', ''bosome'', ''owia''])"
        "''terms.csv''"
        "frame_of [''1'', ''2'', ''3''] [''sun'', ''moon'', ''sun''] [''awia'', ''bosome'', ''owia'']"
        "[''sun'', ''moon'', ''sun'']" 0 2]
  by (simp add: all_required lookup_frame_of)

text \<open>
  Claim C3 as stated fails: the terms \<^verbatim>\<open>Parliament\<close> and \<^verbatim>\<open>parliament\<close> are equal
  up to case, and the file that holds both is reported valid.
\<close>

theorem validate_accepts_terms_differing_in_case:
  "equal_ignoring_case ''Parliament'' ''parliament'' \<and>
   validate_terminology_file
     (reads_as (frame_of [''1'', ''2''] [''Parliament'', ''parliament''] [''Mmarahyebadwa'', ''mmarahyebadwa'']))
     ''terms.csv'' = Inr (True, ''File is valid'')"
  by (simp add: equal_ignoring_case_def lower_char_def validate_result lookup_frame_of reads_as_def)

text \<open>
  Claim C4: for every path and whatever \<^verbatim>\<open>read_csv\<close> does with it,
  \<^verbatim>\<open>validate_terminology_file\<close> raises nothing and returns a flag and a reason. The
  flag is \<^verbatim>\<open>True\<close> exactly when the file was read, the columns \<^verbatim>\<open>id\<close>,
  \<^verbatim>\<open>term\<close> and \<^verbatim>\<open>translation\<close> are all present, and neither the ids nor the
  terms hold a value twice. The reason is fixed in every case: the text of the exception
  after \<^verbatim>\<open>Error reading file: \<close> when reading raised, the message naming the required
  columns when one is absent, and otherwise \<^verbatim>\<open>Duplicate terms found\<close>,
  \<^verbatim>\<open>Duplicate IDs found\<close> or \<^verbatim>\<open>File is valid\<close>, the terms being looked at first.
\<close>

theorem validate_terminology_file_flag:
  "\<exists>flag reason. validate_terminology_file read_csv fp = Inr (flag, reason) \<and>
     (flag \<longleftrightarrow> (\<exists>df ids terms translations. read_csv fp = Inr df
        \<and> DAList.lookup df ''id'' = Some ids \<and> DAList.lookup df ''term'' = Some terms
        \<and> DAList.lookup df ''translation'' = Some translations
        \<and> distinct ids \<and> distinct terms)) \<and>
     (\<forall>e. read_csv fp = Inl e \<longrightarrow> reason = ''Error reading file: '' @ str_exn e) \<and>
     (\<forall>df. read_csv fp = Inr df \<and> \<not> set required_columns \<subseteq> set (columns df) \<longrightarrow>
        reason = ''Missing required columns. Required: ['id', 'term', 'translation']'') \<and>
     (\<forall>df ids terms. read_csv fp = Inr df \<and> set required_columns \<subseteq> set (columns df) \<and>
        DAList.lookup df ''id'' = Some ids \<and> DAList.lookup df ''term'' = Some terms \<longrightarrow>
        reason = (if \<not> distinct terms then ''Duplicate terms found''
                  else if \<not> distinct ids then ''Duplicate IDs found''
                  else ''File is valid''))"
proof (cases "read_csv fp")
  case (Inl e)
  then show ?thesis by (auto simp: validate_result)
next
  case (Inr df)
  show ?thesis
  proof (cases "set required_columns \<subseteq> set (columns df)")
    case False
    then have "DAList.lookup df ''id'' = None \<or> DAList.lookup df ''term'' = None
        \<or> DAList.lookup df ''translation'' = None"
      by (auto simp: required_columns_def in_columns)
    then show ?thesis
      using Inr False by (auto simp: validate_result split: option.splits)
  next
    case True
    then obtain ids ts trs where
      "DAList.lookup df ''id'' = Some ids" "DAList.lookup df ''term'' = Some ts"
      "DAList.lookup df ''translation'' = Some trs"
      by (auto simp: required_columns_def in_columns)
    then show ?thesis
      using Inr True by (auto simp: validate_result)
  qed
qed

lemma disk_columns:
  "set required_columns \<subseteq> set (columns (frame_of ids terms translations))"
  "\<not> set required_columns \<subseteq> set (columns (setitem (setitem DAList.empty ''id'' ids) ''term'' terms))"
  by (simp_all add: required_columns_def in_columns lookup_frame_of setitem_def)

lemma lookup_without_translation:
  "DAList.lookup (setitem (setitem DAList.empty ''id'' ids) ''term'' terms) ''translation'' = None"
  by (simp add: setitem_def)

theorem validate_terminology_file_flag_witness:
  "validate_terminology_file disk ''terms.csv'' = Inr (True, ''File is valid'') \<and>
   validate_terminology_file disk ''ids.csv'' = Inr (False, ''Duplicate IDs found'') \<and>
   validate_terminology_file disk ''short.csv''
     = Inr (False, ''Missing required columns. Required: ['id', 'term', 'translation']'') \<and>
   validate_terminology_file disk ''gone.csv'' = Inr (False, ''Error reading file: No such file'')"
proof -
  have valid: "validate_terminology_file disk ''terms.csv'' = Inr (True, ''File is valid'')"
    using validate_terminology_file_flag [of disk "''terms.csv''"]
    by (auto simp: disk_def disk_columns lookup_frame_of)
  have ids: "validate_terminology_file disk ''ids.csv'' = Inr (False, ''Duplicate IDs found'')"
    using validate_terminology_file_flag [of disk "''ids.csv''"]
    by (auto simp: disk_def disk_columns lookup_frame_of)
  have short: "validate_terminology_file disk ''short.csv''
     = Inr (False, ''Missing required columns. Required: ['id', 'term', 'translation']'')"
    using validate_terminology_file_flag [of disk "''short.csv''"]
    by (auto simp: disk_def disk_columns lookup_without_translation)
  have gone: "validate_terminology_file disk ''gone.csv'' = Inr (False, ''Error reading file: No such file'')"
    using validate_terminology_file_flag [of disk "''gone.csv''"]
    by (auto simp: disk_def)
  from valid ids short gone show ?thesis by simp
qed

text \<open>
  Claim C5, as the code has it: a file with the three required columns in which two rows
  share an id fails validation; the duplicate terms are looked for first, so the reason is
  \<^verbatim>\<open>Duplicate IDs found\<close> when no term occurs twice and \<^verbatim>\<open>Duplicate terms found\<close>
  when one does.
\<close>

theorem validate_rejects_equal_ids:
  assumes "read_csv fp = Inr df"
    and "list_all (\<lambda>col. col \<in> set (columns df)) required_columns"
    and "DAList.lookup df ''id'' = Some ids"
    and "DAList.lookup df ''term'' = Some terms"
    and "i < j" and "j < length ids" and "ids ! i = ids ! j"
  shows "validate_terminology_file read_csv fp =
           Inr (False, if distinct terms then ''Duplicate IDs found'' else ''Duplicate terms found'')"
proof -
  have "\<not> distinct ids"
    using assms(5-7) by (rule repeated_not_distinct)
  then show ?thesis
    using assms(1-4) by (auto simp: validate_result all_required split: option.splits)
qed

theorem validate_rejects_equal_ids_witness:
  "validate_terminology_file
     (\<lambda>p. Inr (frame_of [''5'', ''7'', ''5''] [''sun'', ''moon'', ''star''] [''awia'', ''bosome'', ''nsoromma'']))
     ''terms.csv'' = Inr (False, ''Duplicate IDs found'')"
  using validate_rejects_equal_ids
    [of "\<lambda>p. Inr (frame_of [''5'', ''7'', ''5''] [''sun'', ''moon'', ''star''] [''awia'', ''bosome'', ''nsoromma''])"
        "''terms.csv''"
        "frame_of [''5'', ''7'', ''5''] [''sun'', ''moon'', ''star''] [''awia'', ''bosome'', ''nsoromma'']"
        "[''5'', ''7'', ''5'']" "[''sun'', ''moon'', ''star'']" 0 2]
  by (simp add: all_required lookup_frame_of)

text \<open>
  Claim C5 as stated fails: two rows share the id 5 and all required columns are
  present, and the reason returned is the one for duplicate terms.
\<close>

theorem validate_equal_ids_reports_terms:
  "set required_columns \<subseteq> set (columns (frame_of [''5'', ''5''] [''sun'', ''sun''] [''awia'', ''owia''])) \<and>
   validate_terminology_file
     (reads_as (frame_of [''5'', ''5''] [''sun'', ''sun''] [''awia'', ''owia'']))
     ''terms.csv'' = Inr (False, ''Duplicate terms found'')"
  by (simp add: required_columns_def in_columns validate_result lookup_frame_of reads_as_def)

section \<open>Properties of list\_available\_options\<close>

lemma group_step_lookup:
  "\<exists>d'. group_step dd (domain, lang) = Inr d' \<and>
         DAList.lookup d' = (DAList.lookup dd)(domain \<mapsto> langs_of dd domain @ [lang])"
  by (auto simp: group_step_def contains_def setitem_def getitem_def langs_of_def Let_def
      lookup_update fun_eq_iff split: option.splits)

lemma group_loop_lookup:
  "\<exists>d'. group_loop dd ps = Inr d' \<and>
     (\<forall>k. DAList.lookup d' k =
        (if DAList.lookup dd k = None \<and> k \<notin> fst ` set ps then None
         else Some (langs_of dd k @ map snd (filter (\<lambda>p. fst p = k) ps))))"
proof (induction ps arbitrary: dd)
  case Nil
  show ?case by (auto simp: langs_of_def)
next
  case (Cons p ps)
  obtain domain lang where p: "p = (domain, lang)" by (cases p)
  obtain d1 where d1: "group_step dd (domain, lang) = Inr d1"
    and look: "DAList.lookup d1 = (DAList.lookup dd)(domain \<mapsto> langs_of dd domain @ [lang])"
    using group_step_lookup by blast
  obtain d' where d': "group_loop d1 ps = Inr d'"
    and rest: "\<forall>k. DAList.lookup d' k =
        (if DAList.lookup d1 k = None \<and> k \<notin> fst ` set ps then None
         else Some (langs_of d1 k @ map snd (filter (\<lambda>p. fst p = k) ps)))"
    using Cons.IH [of d1] by blast
  have "group_loop dd (p # ps) = Inr d'"
    by (simp add: p d1 d')
  moreover have "DAList.lookup d' k =
        (if DAList.lookup dd k = None \<and> k \<notin> fst ` set (p # ps) then None
         else Some (langs_of dd k @ map snd (filter (\<lambda>p. fst p = k) (p # ps))))" for k
    using rest [rule_format, of k] by (auto simp: p look langs_of_def)
  ultimately show ?case by blast
qed

text \<open>
  Claim C8: \<^verbatim>\<open>list_available_options\<close> returns the manager's domains, languages and
  pairs, and its grouping agrees with the pairs: a language is in the list of a domain
  exactly when the pair of that domain and that language is among the pairs.
\<close>

theorem list_available_options_grouping:
  "\<exists>r. list_available_options new_manager dir = Inr r \<and>
     domains r = get_domains (new_manager dir) \<and>
     languages r = get_languages (new_manager dir) \<and>
     domain_language_pairs r = get_available_domains_languages (new_manager dir) \<and>
     (\<forall>domain lang.
        (\<exists>langs. DAList.lookup (domains_with_languages r) domain = Some langs \<and> lang \<in> set langs)
          \<longleftrightarrow> (domain, lang) \<in> set (domain_language_pairs r))"
proof -
  let ?ps = "get_available_domains_languages (new_manager dir)"
  obtain d' where d': "group_loop DAList.empty ?ps = Inr d'"
    and look: "\<forall>k. DAList.lookup d' k =
        (if DAList.lookup DAList.empty k = (None :: string list option) \<and> k \<notin> fst ` set ?ps then None
         else Some (langs_of DAList.empty k @ map snd (filter (\<lambda>p. fst p = k) ?ps)))"
    using group_loop_lookup [of DAList.empty ?ps] by blast
  have "(\<exists>langs. DAList.lookup d' domain = Some langs \<and> lang \<in> set langs)
          \<longleftrightarrow> (domain, lang) \<in> set ?ps" for domain lang
    using look [rule_format, of domain] by (force simp: langs_of_def)
  then show ?thesis
    by (simp add: list_available_options_def Let_def d')
qed

theorem list_available_options_grouping_witness:
  "\<exists>r. list_available_options manager0 None = Inr r \<and>
     domains r = [''politics'', ''law''] \<and>
     languages r = [''el'', ''ak''] \<and>
     domain_language_pairs r = [(''politics'', ''el''), (''law'', ''ak''), (''politics'', ''ak'')] \<and>
     (\<exists>langs. DAList.lookup (domains_with_languages r) ''politics'' = Some langs \<and> ''ak'' \<in> set langs) \<and>
     \<not> (\<exists>langs. DAList.lookup (domains_with_languages r) ''law'' = Some langs \<and> ''el'' \<in> set langs)"
proof -
  obtain r where r: "list_available_options manager0 None = Inr r"
    and d: "domains r = get_domains (manager0 None)"
    and l: "languages r = get_languages (manager0 None)"
    and p: "domain_language_pairs r = get_available_domains_languages (manager0 None)"
    and g: "\<forall>domain lang.
        (\<exists>langs. DAList.lookup (domains_with_languages r) domain = Some langs \<and> lang \<in> set langs)
          \<longleftrightarrow> (domain, lang) \<in> set (domain_language_pairs r)"
    using list_available_options_grouping [of manager0 None] by blast
  have p': "domain_language_pairs r = [(''politics'', ''el''), (''law'', ''ak''), (''politics'', ''ak'')]"
    using p by (simp add: manager0_def)
  have "\<exists>langs. DAList.lookup (domains_with_languages r) ''politics'' = Some langs \<and> ''ak'' \<in> set langs"
    using g [rule_format, of "''politics''" "''ak''"] by (simp add: p')
  moreover have "\<not> (\<exists>langs. DAList.lookup (domains_with_languages r) ''law'' = Some langs \<and> ''el'' \<in> set langs)"
    using g [rule_format, of "''law''" "''el''"] by (simp add: p')
  moreover have "domains r = [''politics'', ''law'']" "languages r = [''el'', ''ak'']"
    using d l by (simp_all add: manager0_def)
  ultimately show ?thesis
    using r p' by blast
qed

lemma list_available_options_example:
  "map_option (\<lambda>r. DAList.impl_of (domains_with_languages r))
     (case list_available_options manager0 None of Inl e \<Rightarrow> None | Inr r \<Rightarrow> Some r)
   = Some [(''politics'', [''el'', ''ak'']), (''law'', [''ak''])]"
  by (simp add: list_available_options_def manager0_def group_step_def contains_def setitem_def
      getitem_def update.rep_eq empty.rep_eq lookup.rep_eq)

section \<open>Properties of export\_terminology\<close>


lemma len_politics_el: "len_dict politics_el = 2"
  by (simp add: politics_el_def len_dict_def setitem_def update.rep_eq empty.rep_eq)



text \<open>
  Claim C10: for a pair with entries and a format that is neither \<^verbatim>\<open>json\<close> nor
  \<^verbatim>\<open>csv\<close>, \<^verbatim>\<open>export_terminology\<close> raises nothing and returns the list of
  dictionaries itself, one per term, each with the term's id, term and translation.
\<close>

theorem export_terminology_other_format:
  assumes "len_dict (get_terms_for_domain_lang (new_manager dir) domain language) \<noteq> 0"
    and "fmt \<noteq> ''json''" and "fmt \<noteq> ''csv''"
  shows "export_terminology new_manager json_dumps csv_getvalue domain language fmt dir
           = Inr (Terms_list (map term_dict
                (values_dict (get_terms_for_domain_lang (new_manager dir) domain language))))"
  using assms by (simp add: export_terminology_def Let_def)

lemma term_dict_items:
  "DAList.impl_of (term_dict t) =
     [(''id'', term_id t), (''term'', term_term t), (''translation'', term_translation t)]"
  by (simp add: term_dict_def setitem_def update.rep_eq empty.rep_eq)

theorem export_terminology_other_format_witness:
  "\<exists>rows. export_terminology manager0 (\<lambda>rows. ''[]'') (\<lambda>rows. ''id,term,translation'')
        ''politics'' ''el'' ''yaml'' None = Inr (Terms_list rows) \<and>
     map DAList.impl_of rows =
       [[(''id'', ''1''), (''term'', ''Parliament''), (''translation'', ''Vouli'')],
        [(''id'', ''2''), (''term'', ''Minister''), (''translation'', ''Ypourgos'')]]"
proof -
  have terms: "get_terms_for_domain_lang (manager0 None) ''politics'' ''el'' = politics_el"
    by (simp add: manager0_def)
  have fmt: "''yaml'' \<noteq> ''json''" "''yaml'' \<noteq> ''csv''"
    by simp_all
  have populated: "len_dict (get_terms_for_domain_lang (manager0 None) ''politics'' ''el'') \<noteq> 0"
    by (simp add: terms len_politics_el)
  have returned: "export_terminology manager0 (\<lambda>rows. ''[]'') (\<lambda>rows. ''id,term,translation'')
          ''politics'' ''el'' ''yaml'' None = Inr (Terms_list (map term_dict (values_dict politics_el)))"
    using export_terminology_other_format
      [of manager0 None "''politics''" "''el''" "''yaml''" "\<lambda>rows. ''[]''" "\<lambda>rows. ''id,term,translation''",
       OF populated fmt]
    by (simp only: terms)
  have items: "map DAList.impl_of (map term_dict (values_dict politics_el)) =
       [[(''id'', ''1''), (''term'', ''Parliament''), (''translation'', ''Vouli'')],
        [(''id'', ''2''), (''term'', ''Minister''), (''translation'', ''Ypourgos'')]]"
    by (simp add: term_dict_items values_dict_def politics_el_def setitem_def
        update.rep_eq empty.rep_eq)
  show ?thesis
    by (rule exI [of _ "map term_dict (values_dict politics_el)"]) (simp only: returned items)
qed

section \<open>Properties of the translator\<close>

lemma translate_async_calls: "snd (translate_async google self t calls) = Suc calls"
  by (simp add: translate_async_def split: prod.splits sum.splits)

lemma translate_async_Inl:
  "fst (translate_async google self t calls) = Inl e \<longleftrightarrow>
     google calls (fst (preprocess_text (terminology_manager self) t))
       (src_lang_google self) (target_lang_google self) = Inl e"
  by (simp add: translate_async_def split: prod.splits sum.splits)

lemma translate_async_Inr:
  assumes "translate_async google self t calls = (Inr r, calls')"
  shows "google calls (fst (preprocess_text (terminology_manager self) t))
           (src_lang_google self) (target_lang_google self) = Inr (google_translation r)"
    and "r = \<lparr>text_final = postprocess_text (terminology_manager self) (google_translation r)
                  (fst (snd (preprocess_text (terminology_manager self) t)))
                  (snd (snd (preprocess_text (terminology_manager self) t))),
              src = src_lang self, dest = target_lang self, original = t,
              preprocessed = fst (preprocess_text (terminology_manager self) t),
              google_translation = google_translation r,
              replacements_count = len_dict (fst (snd (preprocess_text (terminology_manager self) t))),
              src_google = src_lang_google self, dest_google = target_lang_google self,
              replaced_terms = keys_dict (fst (snd (preprocess_text (terminology_manager self) t)))\<rparr>"
    and "calls' = Suc calls"
  using assms by (auto simp: translate_async_def Let_def split: prod.splits sum.splits)

lemma translate_Inr_from_async:
  assumes "translate loop google self t calls = (Inr r, calls')"
  shows "\<exists>n c. translate_async google self t n = (Inr r, c)"
proof (cases loop)
  case No_current_loop
  with assms show ?thesis by (auto simp: translate_def)
next
  case Loop_not_running
  with assms show ?thesis
    by (auto simp: translate_def split: prod.splits sum.splits if_splits)
next
  case (Loop_running wait)
  with assms show ?thesis
    by (cases wait)
      (auto simp: translate_def submit_and_wait_def split: prod.splits sum.splits if_splits)
qed

text \<open>
  Claim C7: a call of \<^verbatim>\<open>translate\<close> that returns, returns the complete result: the
  original text (the input itself), the preprocessed text, the text that the external
  translator gave for the preprocessed text, the final text made from it, the number of
  replacements and the list of the replaced terms, with the language codes.
\<close>

theorem translate_result_complete:
  assumes "translate loop google self t calls = (Inr r, calls')"
  shows "original r = t \<and>
     preprocessed r = fst (preprocess_text (terminology_manager self) t) \<and>
     (\<exists>n. google n (preprocessed r) (src_lang_google self) (target_lang_google self)
            = Inr (google_translation r)) \<and>
     text_final r = postprocess_text (terminology_manager self) (google_translation r)
                      (fst (snd (preprocess_text (terminology_manager self) t)))
                      (snd (snd (preprocess_text (terminology_manager self) t))) \<and>
     replacements_count r = len_dict (fst (snd (preprocess_text (terminology_manager self) t))) \<and>
     replaced_terms r = keys_dict (fst (snd (preprocess_text (terminology_manager self) t))) \<and>
     src r = src_lang self \<and> dest r = target_lang self \<and>
     src_google r = src_lang_google self \<and> dest_google r = target_lang_google self"
proof -
  obtain n c where run: "translate_async google self t n = (Inr r, c)"
    using translate_Inr_from_async [OF assms] by blast
  note ext = translate_async_Inr(1) [OF run] and shape = translate_async_Inr(2) [OF run]
  have pre: "preprocessed r = fst (preprocess_text (terminology_manager self) t)"
    by (subst shape) simp
  have "\<exists>n. google n (preprocessed r) (src_lang_google self) (target_lang_google self)
            = Inr (google_translation r)"
    using ext by (auto simp: pre)
  moreover have "original r = t" by (subst shape) simp
  moreover have "text_final r = postprocess_text (terminology_manager self) (google_translation r)
                      (fst (snd (preprocess_text (terminology_manager self) t)))
                      (snd (snd (preprocess_text (terminology_manager self) t)))"
    by (subst shape) simp
  moreover have "replacements_count r = len_dict (fst (snd (preprocess_text (terminology_manager self) t)))"
    by (subst shape) simp
  moreover have "replaced_terms r = keys_dict (fst (snd (preprocess_text (terminology_manager self) t)))"
    by (subst shape) simp
  moreover have "src r = src_lang self" "dest r = target_lang self"
    "src_google r = src_lang_google self" "dest_google r = target_lang_google self"
    by (subst shape, simp)+
  ultimately show ?thesis using pre by simp
qed

lemma translate_example:
  "translate Loop_not_running google_ok akan_translator ''The Parliament meets today.'' 0 =
     (Inr \<lparr>text_final = ''Mmarahyebadwa - [ak] The <1> meets today.'',
           src = ''en'', dest = ''ak'', original = ''The Parliament meets today.'',
           preprocessed = ''The <1> meets today.'',
           google_translation = ''[ak] The <1> meets today.'',
           replacements_count = 1, src_google = ''en'', dest_google = ''ak'',
           replaced_terms = [''Parliament'']\<rparr>, 1)"
  by (simp add: translate_def translate_async_def akan_translator_def akan_manager_def
      google_ok_def len_dict_def keys_dict_def contains_def setitem_def update.rep_eq
      empty.rep_eq lookup.rep_eq)

theorem translate_result_complete_witness:
  "\<exists>r calls'. translate Loop_not_running google_ok akan_translator ''The Parliament meets today.'' 0
       = (Inr r, calls') \<and>
     original r = ''The Parliament meets today.'' \<and>
     preprocessed r = ''The <1> meets today.'' \<and>
     src r = ''en'' \<and> dest r = ''ak''"
proof -
  let ?r = "\<lparr>text_final = ''Mmarahyebadwa - [ak] The <1> meets today.'',
           src = ''en'', dest = ''ak'', original = ''The Parliament meets today.'',
           preprocessed = ''The <1> meets today.'',
           google_translation = ''[ak] The <1> meets today.'',
           replacements_count = 1, src_google = ''en'', dest_google = ''ak'',
           replaced_terms = [''Parliament'']\<rparr>"
  have run: "translate Loop_not_running google_ok akan_translator ''The Parliament meets today.'' 0
       = (Inr ?r, 1)"
    by (rule translate_example)
  have "original ?r = ''The Parliament meets today.'' \<and>
        preprocessed ?r = ''The <1> meets today.'' \<and> src ?r = ''en'' \<and> dest ?r = ''ak''"
    using translate_result_complete [OF run]
    by (simp add: akan_translator_def akan_manager_def)
  with run show ?thesis by blast
qed

text \<open>
  Claim C9: in every result that \<^verbatim>\<open>_translate_async\<close> returns, the count of
  replacements is the length of the list of replaced terms.
\<close>

theorem replacements_count_is_length:
  assumes "translate_async google self t calls = (Inr r, calls')"
  shows "replacements_count r = length (replaced_terms r)"
proof -
  note shape = translate_async_Inr(2) [OF assms]
  have "replacements_count r = len_dict (fst (snd (preprocess_text (terminology_manager self) t)))"
    by (subst shape) simp
  moreover have "replaced_terms r = keys_dict (fst (snd (preprocess_text (terminology_manager self) t)))"
    by (subst shape) simp
  ultimately show ?thesis
    by (simp add: len_dict_def keys_dict_def)
qed

lemma translate_async_example:
  "translate_async google_ok akan_translator ''The Parliament meets today.'' 0 =
     (Inr \<lparr>text_final = ''Mmarahyebadwa - [ak] The <1> meets today.'',
           src = ''en'', dest = ''ak'', original = ''The Parliament meets today.'',
           preprocessed = ''The <1> meets today.'',
           google_translation = ''[ak] The <1> meets today.'',
           replacements_count = 1, src_google = ''en'', dest_google = ''ak'',
           replaced_terms = [''Parliament'']\<rparr>, 1)"
  by (simp add: translate_async_def akan_translator_def akan_manager_def
      google_ok_def len_dict_def keys_dict_def contains_def setitem_def update.rep_eq
      empty.rep_eq lookup.rep_eq)

theorem replacements_count_is_length_witness:
  "\<exists>r calls'. translate_async google_ok akan_translator ''The Parliament meets today.'' 0
       = (Inr r, calls') \<and> replaced_terms r = [''Parliament''] \<and>
     replacements_count r = length (replaced_terms r)"
  using replacements_count_is_length [OF translate_async_example] translate_async_example
  by simp

text \<open>
  Claim C2 fails on the code where the external translator raises a
  \<^verbatim>\<open>RuntimeError\<close> and a current event loop exists: the handler
  \<^verbatim>\<open>except RuntimeError\<close> of \<^verbatim>\<open>translate\<close> runs the coroutine again. With an
  external translator whose first call raises and whose second call answers, the
  caller gets a result and no exception, after two calls; with one whose second call
  raises too, the caller gets the second exception, not the first.
\<close>

theorem translate_runs_again_after_RuntimeError:
  "translate Loop_not_running google_first_call_fails akan_translator ''Good morning'' 0 =
     (Inr \<lparr>text_final = ''[ak] Good morning'',
           src = ''en'', dest = ''ak'', original = ''Good morning'',
           preprocessed = ''Good morning'',
           google_translation = ''[ak] Good morning'',
           replacements_count = 0, src_google = ''en'', dest_google = ''ak'',
           replaced_terms = []\<rparr>, 2) \<and>
   translate Loop_not_running google_always_fails akan_translator ''Good morning'' 0 =
     (Inl (Exn OtherError ''Service unavailable''), 2)"
  by (simp add: translate_def translate_async_def akan_translator_def akan_manager_def
      google_first_call_fails_def google_always_fails_def len_dict_def keys_dict_def
      contains_def empty.rep_eq lookup.rep_eq)

text \<open>
  What does hold: an exception of the external translator that is not a
  \<^verbatim>\<open>RuntimeError\<close> reaches the caller of \<^verbatim>\<open>translate\<close> unchanged after exactly
  one call, when the loop found is not running.
\<close>

lemma translate_propagates_other_exceptions:
  assumes "google calls (fst (preprocess_text (terminology_manager self) t))
             (src_lang_google self) (target_lang_google self) = Inl e"
    and "class_of e \<noteq> RuntimeError"
  shows "translate Loop_not_running google self t calls = (Inl e, Suc calls)"
proof -
  have "fst (translate_async google self t calls) = Inl e"
    using assms(1) by (simp add: translate_async_Inl)
  then have "translate_async google self t calls = (Inl e, Suc calls)"
    using translate_async_calls [of google self t calls] by (simp add: prod_eq_iff)
  then show ?thesis
    using assms(2) by (simp add: translate_def)
qed

section \<open>Properties of batch\_translate\<close>

lemma batch_loop_all_succeed:
  assumes "\<forall>i<length texts. \<not> isl (fst (translate_async google self (texts ! i) (calls + i)))"
  shows "batch_loop google self texts results calls =
     (Inr (results @ map (\<lambda>i. projr (fst (translate_async google self (texts ! i) (calls + i))))
                       [0..<length texts]),
      calls + length texts)"
  using assms
proof (induction texts arbitrary: results calls)
  case Nil
  show ?case by simp
next
  case (Cons t ts)
  obtain r where r: "fst (translate_async google self t calls) = Inr r"
    using Cons.prems [rule_format, of 0] by (cases "fst (translate_async google self t calls)") auto
  have step: "translate_async google self t calls = (Inr r, Suc calls)"
    using r translate_async_calls [of google self t calls] by (simp add: prod_eq_iff)
  have rest: "\<forall>i<length ts. \<not> isl (fst (translate_async google self (ts ! i) (Suc calls + i)))"
    using Cons.prems by (auto dest: spec [of _ "Suc i" for i])
  have "batch_loop google self (t # ts) results calls =
          batch_loop google self ts (results @ [r]) (Suc calls)"
    by (simp add: step)
  also have "\<dots> = (Inr ((results @ [r]) @
       map (\<lambda>i. projr (fst (translate_async google self (ts ! i) (Suc calls + i)))) [0..<length ts]),
       Suc calls + length ts)"
    by (rule Cons.IH [OF rest])
  also have "map (\<lambda>i. projr (fst (translate_async google self (ts ! i) (Suc calls + i)))) [0..<length ts]
      = map (\<lambda>i. projr (fst (translate_async google self ((t # ts) ! i) (calls + i)))) [Suc 0..<Suc (length ts)]"
    by (simp add: map_Suc_upt [symmetric] del: upt_Suc)
  finally show ?case
    by (simp add: upt_conv_Cons r del: upt_Suc)
qed

lemma batch_loop_first_failure:
  assumes "k < length texts"
    and "\<forall>i<k. \<not> isl (fst (translate_async google self (texts ! i) (calls + i)))"
    and "fst (translate_async google self (texts ! k) (calls + k)) = Inl e"
  shows "batch_loop google self texts results calls = (Inl e, calls + k + 1)"
  using assms
proof (induction texts arbitrary: k results calls)
  case Nil
  then show ?case by simp
next
  case (Cons t ts)
  show ?case
  proof (cases k)
    case 0
    then have "fst (translate_async google self t calls) = Inl e"
      using Cons.prems(3) by simp
    then have "translate_async google self t calls = (Inl e, Suc calls)"
      using translate_async_calls [of google self t calls] by (simp add: prod_eq_iff)
    then show ?thesis by (simp add: 0)
  next
    case (Suc j)
    obtain r where r: "fst (translate_async google self t calls) = Inr r"
      using Cons.prems(2) [rule_format, of 0] Suc
      by (cases "fst (translate_async google self t calls)") auto
    have step: "translate_async google self t calls = (Inr r, Suc calls)"
      using r translate_async_calls [of google self t calls] by (simp add: prod_eq_iff)
    have j: "j < length ts" using Cons.prems(1) Suc by simp
    have before: "\<forall>i<j. \<not> isl (fst (translate_async google self (ts ! i) (Suc calls + i)))"
      using Cons.prems(2) Suc by (auto dest: spec [of _ "Suc i" for i])
    have at: "fst (translate_async google self (ts ! j) (Suc calls + j)) = Inl e"
      using Cons.prems(3) Suc by simp
    have "batch_loop google self ts (results @ [r]) (Suc calls) = (Inl e, Suc calls + j + 1)"
      by (rule Cons.IH [OF j before at])
    then show ?thesis by (simp add: step Suc)
  qed
qed

text \<open>
  Claim C1, as the code has it: \<^verbatim>\<open>batch_translate\<close> translates the texts in order.
  When every text is translated it returns all the results, one per text in the order
  of the texts. When the translation of a text fails, the texts before it having
  succeeded, the exception of that text leaves the loop and reaches the caller: no
  result is returned, and no text after it is given to the external translator.
\<close>

theorem batch_translate_all_or_first_failure:
  "((\<forall>i<length texts. \<not> isl (fst (translate_async google self (texts ! i) (calls + i)))) \<longrightarrow>
      batch_translate google self texts calls =
        (Inr (map (\<lambda>i. projr (fst (translate_async google self (texts ! i) (calls + i))))
                  [0..<length texts]),
         calls + length texts)) \<and>
   (k < length texts \<and>
    (\<forall>i<k. \<not> isl (fst (translate_async google self (texts ! i) (calls + i)))) \<and>
    fst (translate_async google self (texts ! k) (calls + k)) = Inl e \<longrightarrow>
      batch_translate google self texts calls = (Inl e, calls + k + 1))"
  using batch_loop_all_succeed [of texts google self calls "[]"]
    batch_loop_first_failure [of k texts google self calls e "[]"]
  by (simp add: batch_translate_def)

lemma translate_async_plain:
  "t \<noteq> ''The Parliament meets today.'' \<Longrightarrow>
   translate_async google akan_translator t n =
     (case google n t ''en'' ''ak'' of
        Inl e \<Rightarrow> (Inl e, Suc n)
      | Inr g \<Rightarrow> (Inr \<lparr>text_final = g, src = ''en'', dest = ''ak'', original = t,
                        preprocessed = t, google_translation = g, replacements_count = 0,
                        src_google = ''en'', dest_google = ''ak'', replaced_terms = []\<rparr>, Suc n))"
  by (simp add: translate_async_def akan_translator_def akan_manager_def len_dict_def
      keys_dict_def contains_def empty.rep_eq lookup.rep_eq split: sum.splits)

theorem batch_translate_all_or_first_failure_witness:
  "batch_translate google_ok akan_translator [''Good morning'', ''Thank you''] 0 =
     (Inr [\<lparr>text_final = ''[ak] Good morning'', src = ''en'', dest = ''ak'',
             original = ''Good morning'', preprocessed = ''Good morning'',
             google_translation = ''[ak] Good morning'', replacements_count = 0,
             src_google = ''en'', dest_google = ''ak'', replaced_terms = []\<rparr>,
           \<lparr>text_final = ''[ak] Thank you'', src = ''en'', dest = ''ak'',
             original = ''Thank you'', preprocessed = ''Thank you'',
             google_translation = ''[ak] Thank you'', replacements_count = 0,
             src_google = ''en'', dest_google = ''ak'', replaced_terms = []\<rparr>], 2) \<and>
   batch_translate (google_fails_on ''Thank you'') akan_translator
       [''Good morning'', ''Thank you'', ''Good night''] 5 =
     (Inl (Exn OtherError ''Service unavailable''), 7)"
proof -
  have ok: "\<forall>i<length [''Good morning'', ''Thank you''].
      \<not> isl (fst (translate_async google_ok akan_translator ([''Good morning'', ''Thank you''] ! i) (0 + i)))"
    by (simp add: All_less_Suc translate_async_plain google_ok_def)
  have first: "batch_translate google_ok akan_translator [''Good morning'', ''Thank you''] 0 =
        (Inr (map (\<lambda>i. projr (fst (translate_async google_ok akan_translator
                    ([''Good morning'', ''Thank you''] ! i) (0 + i))))
                  [0..<length [''Good morning'', ''Thank you'']]),
         0 + length [''Good morning'', ''Thank you''])"
    using batch_translate_all_or_first_failure
      [of "[''Good morning'', ''Thank you'']" google_ok akan_translator 0 0 "Exn OtherError []"] ok
    by blast
  have before: "\<forall>i<1. \<not> isl (fst (translate_async (google_fails_on ''Thank you'') akan_translator
        ([''Good morning'', ''Thank you'', ''Good night''] ! i) (5 + i)))"
    by (simp add: translate_async_plain google_fails_on_def)
  have at: "fst (translate_async (google_fails_on ''Thank you'') akan_translator
        ([''Good morning'', ''Thank you'', ''Good night''] ! 1) (5 + 1))
      = Inl (Exn OtherError ''Service unavailable'')"
    by (simp add: translate_async_plain google_fails_on_def)
  have k: "1 < length [''Good morning'', ''Thank you'', ''Good night'']"
    by simp
  have second: "batch_translate (google_fails_on ''Thank you'') akan_translator
       [''Good morning'', ''Thank you'', ''Good night''] 5 =
     (Inl (Exn OtherError ''Service unavailable''), 5 + 1 + 1)"
    using batch_translate_all_or_first_failure
      [of "[''Good morning'', ''Thank you'', ''Good night'']" "google_fails_on ''Thank you''"
          akan_translator 5 1 "Exn OtherError ''Service unavailable''"]
      k before at
    by blast
  have "map (\<lambda>i. projr (fst (translate_async google_ok akan_translator
                    ([''Good morning'', ''Thank you''] ! i) (0 + i))))
                  [0..<length [''Good morning'', ''Thank you'']] =
        [\<lparr>text_final = ''[ak] Good morning'', src = ''en'', dest = ''ak'',
             original = ''Good morning'', preprocessed = ''Good morning'',
             google_translation = ''[ak] Good morning'', replacements_count = 0,
             src_google = ''en'', dest_google = ''ak'', replaced_terms = []\<rparr>,
           \<lparr>text_final = ''[ak] Thank you'', src = ''en'', dest = ''ak'',
             original = ''Thank you'', preprocessed = ''Thank you'',
             google_translation = ''[ak] Thank you'', replacements_count = 0,
             src_google = ''en'', dest_google = ''ak'', replaced_terms = []\<rparr>]"
    by (simp add: upt_conv_Cons translate_async_plain google_ok_def del: upt_Suc)
  with first second show ?thesis by simp
qed

text \<open>
  Claim C1 as stated fails: of three texts the first and the third are translated
  when taken alone, the second fails, and the batch returns no result at all, only
  the exception of the second text, after two calls of the external translator; the
  third text is never tried. The synchronous wrapper returns the same.
\<close>

theorem batch_translate_aborts_on_failure:
  "\<not> isl (fst (translate_async (google_fails_on ''Thank you'') akan_translator ''Good morning'' 0)) \<and>
   \<not> isl (fst (translate_async (google_fails_on ''Thank you'') akan_translator ''Good night'' 2)) \<and>
   batch_translate (google_fails_on ''Thank you'') akan_translator
       [''Good morning'', ''Thank you'', ''Good night''] 0 =
     (Inl (Exn OtherError ''Service unavailable''), 2) \<and>
   batch_translate_sync Loop_not_running (google_fails_on ''Thank you'') akan_translator
       [''Good morning'', ''Thank you'', ''Good night''] 0 =
     (Inl (Exn OtherError ''Service unavailable''), 2)"
  by (simp add: batch_translate_sync_def batch_translate_def translate_async_plain
      google_fails_on_def)

end
